theory Spec2Isabelle
  imports Complex_Main
begin

section \<open>Values and exceptions of the Python side\<close>

text \<open>
  The program is \<^verbatim>\<open>src/app.py\<close>: one function, \<^verbatim>\<open>run_dynamo_sync\<close>, scans a DynamoDB
  table page by page, turns every item into a tuple of eight columns and merges the
  tuples into the PostgreSQL table \<^verbatim>\<open>lecturas_sensores\<close> through the temporary table
  \<^verbatim>\<open>temp_lecturas\<close>. The route \<^verbatim>\<open>/sync-dynamo\<close> (\<^verbatim>\<open>manual_sync\<close>) calls it.

  boto3 hands a DynamoDB number over as a \<^verbatim>\<open>Decimal\<close>: a coefficient and an exponent,
  denoting \<open>coefficient * 10 ^ exponent\<close>.
\<close>

datatype decimal = Decimal (coefficient: int) (exponent: int)

text \<open>
  The values an item of the table can hold after boto3 has deserialised it. \<open>PyOther\<close>
  stands for a \<^verbatim>\<open>Binary\<close>, a set, a list or a dict: the values on which both
  \<^verbatim>\<open>float()\<close> and \<^verbatim>\<open>int()\<close> raise \<^verbatim>\<open>TypeError\<close>.
\<close>

datatype py_value = PyNone | PyBool bool | PyStr string | PyDecimal decimal | PyOther

text \<open>An item is a dict from attribute names to values.\<close>

type_synonym item = "string \<rightharpoonup> py_value"

text \<open>
  Exceptions. \<open>TypeError\<close> and \<open>ValueError\<close> are raised by the builtins \<^verbatim>\<open>float\<close> and
  \<^verbatim>\<open>int\<close>; \<open>LibraryError m\<close> is an exception \<open>e\<close> raised inside boto3 or psycopg2, with
  \<^verbatim>\<open>str(e)\<close> equal to \<open>m\<close>. All of them are subclasses of \<^verbatim>\<open>Exception\<close>.
\<close>

datatype py_exception = TypeError | ValueError | LibraryError string

text \<open>
  What the builtins compute on a value is part of the Python runtime, not of the
  repository; rounding a decimal to a double and parsing a numeric literal are taken as
  parameters. \<open>'f\<close> is the type of Python floats, with \<open>0\<close> for the literal \<^verbatim>\<open>0.0\<close>.
  \<open>None\<close> from a parser is its \<^verbatim>\<open>ValueError\<close>.
\<close>

record 'f py_runtime =
  float_of_decimal :: "decimal \<Rightarrow> 'f"
  float_of_str :: "string \<Rightarrow> 'f option"
  int_of_str :: "string \<Rightarrow> int option"

text \<open>\<^verbatim>\<open>int(Decimal)\<close> truncates towards zero.\<close>

definition int_of_decimal :: "decimal \<Rightarrow> int" where
  "int_of_decimal d =
     (if 0 \<le> exponent d then coefficient d * 10 ^ nat (exponent d)
      else sgn (coefficient d) * (\<bar>coefficient d\<bar> div 10 ^ nat (- exponent d)))"

definition py_float :: "('f, 'x) py_runtime_scheme \<Rightarrow> py_value \<Rightarrow> py_exception + 'f" where
  "py_float rt v =
     (case v of
        PyNone \<Rightarrow> Inl TypeError
      | PyBool b \<Rightarrow> Inr (float_of_decimal rt (Decimal (if b then 1 else 0) 0))
      | PyStr s \<Rightarrow> (case float_of_str rt s of None \<Rightarrow> Inl ValueError | Some f \<Rightarrow> Inr f)
      | PyDecimal d \<Rightarrow> Inr (float_of_decimal rt d)
      | PyOther \<Rightarrow> Inl TypeError)"

definition py_int :: "('f, 'x) py_runtime_scheme \<Rightarrow> py_value \<Rightarrow> py_exception + int" where
  "py_int rt v =
     (case v of
        PyNone \<Rightarrow> Inl TypeError
      | PyBool b \<Rightarrow> Inr (if b then 1 else 0)
      | PyStr s \<Rightarrow> (case int_of_str rt s of None \<Rightarrow> Inl ValueError | Some i \<Rightarrow> Inr i)
      | PyDecimal d \<Rightarrow> Inr (int_of_decimal d)
      | PyOther \<Rightarrow> Inl TypeError)"

text \<open>\<^verbatim>\<open>item.get(k)\<close>: the value, or \<^verbatim>\<open>None\<close> when the key is absent.\<close>

definition dict_get :: "item \<Rightarrow> string \<Rightarrow> py_value" where
  "dict_get it k = (case it k of None \<Rightarrow> PyNone | Some v \<Rightarrow> v)"

text \<open>
  \<^verbatim>\<open>float(item.get(k, 0.0))\<close> and \<^verbatim>\<open>int(item.get(k, 0))\<close>: the default is taken only
  when the key is absent, and the builtin maps it to itself.
\<close>

definition float_get :: "('f::zero, 'x) py_runtime_scheme \<Rightarrow> item \<Rightarrow> string \<Rightarrow> py_exception + 'f" where
  "float_get rt it k = (case it k of None \<Rightarrow> Inr 0 | Some v \<Rightarrow> py_float rt v)"

definition int_get :: "('f, 'x) py_runtime_scheme \<Rightarrow> item \<Rightarrow> string \<Rightarrow> py_exception + int" where
  "int_get rt it k = (case it k of None \<Rightarrow> Inr 0 | Some v \<Rightarrow> py_int rt v)"



section \<open>Step 1: the paginated scan\<close>

text \<open>
  The response of \<^verbatim>\<open>dynamo_table.scan\<close> is a dict; the loop reads two of its keys, and
  either may be absent. The continuation marker is opaque to the program: type \<open>'k\<close>.
  \<^verbatim>\<open>scan_kwargs\<close> is either empty or holds \<^verbatim>\<open>ExclusiveStartKey\<close>: a \<open>'k option\<close>.
\<close>

record ('i, 'k) scan_response =
  Items :: "'i list option"
  LastEvaluatedKey :: "'k option"

text \<open>\<^verbatim>\<open>response.get('Items', [])\<close>\<close>

definition response_items :: "('i, 'k) scan_response \<Rightarrow> 'i list" where
  "response_items r = (case Items r of None \<Rightarrow> [] | Some xs \<Rightarrow> xs)"

text \<open>
  The \<^verbatim>\<open>while True\<close> loop of lines 59 to 64. \<open>scan kw\<close> is what the table answers to a
  request with the keyword arguments \<open>kw\<close>: \<open>Inl m\<close> when the call raises. The loop has
  no bound of its own, so it is a partial function: \<open>None\<close> is a loop that never ends.
  The last argument is the log of the requests issued so far.
\<close>

partial_function (option) scan_loop ::
  "('k option \<Rightarrow> string + ('i, 'k) scan_response) \<Rightarrow> 'k option \<Rightarrow> 'i list \<Rightarrow> 'k option list
     \<Rightarrow> ((string + 'i list) \<times> 'k option list) option" where
  "scan_loop scan kw items reqs =
     (case scan kw of
        Inl m \<Rightarrow> Some (Inl m, reqs @ [kw])
      | Inr response \<Rightarrow>
          (case LastEvaluatedKey response of
             None \<Rightarrow> Some (Inr (items @ response_items response), reqs @ [kw])
           | Some k \<Rightarrow> scan_loop scan (Some k) (items @ response_items response) (reqs @ [kw])))"

section \<open>Step 2: preparing the tuples\<close>

text \<open>
  One element of \<^verbatim>\<open>datos_para_insertar\<close>: the tuple of lines 79 to 84, its eight
  positions named after the columns they feed.
\<close>

record 'f dato =
  id_lectura :: py_value
  device_id :: py_value
  temperatura :: 'f
  humedad :: 'f
  distancia_cm :: 'f
  luz_porcentaje :: int
  estado_luz :: py_value
  timestamp :: int

text \<open>
  The tuple of one item. Python evaluates the elements from left to right, and the first
  builtin that raises ends the evaluation; the three \<^verbatim>\<open>item.get(k)\<close> never raise.
\<close>

definition fila :: "('f::zero, 'x) py_runtime_scheme \<Rightarrow> item \<Rightarrow> py_exception + 'f dato" where
  "fila rt it =
     (case float_get rt it ''temperatura'' of Inl e \<Rightarrow> Inl e | Inr t \<Rightarrow>
      case float_get rt it ''humedad'' of Inl e \<Rightarrow> Inl e | Inr h \<Rightarrow>
      case float_get rt it ''distancia_cm'' of Inl e \<Rightarrow> Inl e | Inr d \<Rightarrow>
      case int_get rt it ''luz_porcentaje'' of Inl e \<Rightarrow> Inl e | Inr l \<Rightarrow>
      case py_int rt (dict_get it ''timestamp'') of Inl e \<Rightarrow> Inl e | Inr ts \<Rightarrow>
        Inr \<lparr>id_lectura = dict_get it ''id_lectura'', device_id = dict_get it ''device_id'',
             temperatura = t, humedad = h, distancia_cm = d, luz_porcentaje = l,
             estado_luz = dict_get it ''estado_luz'', timestamp = ts\<rparr>)"

text \<open>
  The \<^verbatim>\<open>for\<close> loop of lines 77 to 84. It stands outside both \<^verbatim>\<open>try\<close> blocks: an
  exception of one item ends the loop and leaves the function.
\<close>

fun datos_para_insertar ::
  "('f::zero, 'x) py_runtime_scheme \<Rightarrow> item list \<Rightarrow> py_exception + 'f dato list" where
  "datos_para_insertar rt [] = Inr []"
| "datos_para_insertar rt (it # its) =
     (case fila rt it of
        Inl e \<Rightarrow> Inl e
      | Inr d \<Rightarrow>
          (case datos_para_insertar rt its of Inl e \<Rightarrow> Inl e | Inr ds \<Rightarrow> Inr (d # ds)))"

section \<open>Step 3: the merge into PostgreSQL\<close>

text \<open>
  A row of \<^verbatim>\<open>temp_lecturas\<close>, after the \<^verbatim>\<open>CREATE TEMPORARY TABLE\<close> of lines 93 to
  104: the primary key is never \<^verbatim>\<open>NULL\<close>, the two other \<^verbatim>\<open>VARCHAR\<close> columns can be.
  \<open>'n\<close> is the type of \<^verbatim>\<open>NUMERIC\<close> values.
\<close>

record 'n temp_lectura =
  tmp_id_lectura :: string
  tmp_device_id :: "string option"
  tmp_temperatura :: 'n
  tmp_humedad :: 'n
  tmp_distancia_cm :: 'n
  tmp_luz_porcentaje :: int
  tmp_estado_luz :: "string option"
  tmp_timestamp_lectura_unix :: int

text \<open>
  Modelled from the spec: the \<^verbatim>\<open>CREATE TABLE\<close> of \<^verbatim>\<open>lecturas_sensores\<close> is not in
  the repository. A row of that table has the eight columns of the \<^verbatim>\<open>INSERT\<close> of
  lines 119 to 135, typed as the spec's persisted schema says (the key a unique
  identifier \<open>'u\<close>, the time a point in time \<open>'t\<close>, the others as in the temporary
  table), and the table's only constraint is the uniqueness of \<^verbatim>\<open>id_lectura\<close> that
  \<^verbatim>\<open>ON CONFLICT (id_lectura)\<close> needs.
\<close>

record ('u, 'n, 't) lectura =
  ls_id_lectura :: 'u
  ls_device_id :: "string option"
  ls_temperatura :: 'n
  ls_humedad :: 'n
  ls_distancia_cm :: 'n
  ls_luz_porcentaje :: int
  ls_estado_luz :: "string option"
  ls_timestamp_lectura :: 't

text \<open>The calls the function makes on psycopg2, in the order of the source.\<close>

datatype pg_call =
  Connect | OpenCursor | CreateTempTable | ExecuteValues | InsertFinal | Commit
  | CloseCursor | Rollback | CloseConnection

text \<open>
  What the database does is not in the repository either. \<open>pg_raises c\<close> is \<open>Some m\<close>
  when call \<open>c\<close> raises for a reason that is not in the data (the server is down, the
  connection is lost); it is consulted for the calls that talk to the server and for
  \<^verbatim>\<open>conn.cursor()\<close>, not for the two \<^verbatim>\<open>close()\<close> calls, which only release the
  client's handle. A \<^verbatim>\<open>conn.commit()\<close> that raises may do so before the server has
  committed or after it (the acknowledgement is lost on the way back):
  \<open>pg_commit_applied\<close> says which. The other fields are the server's conversions of one
  value to a column type, \<open>Inl m\<close> when the statement fails with message \<open>m\<close>: a Python
  value to \<^verbatim>\<open>VARCHAR(n)\<close> (\<open>None\<close> is \<^verbatim>\<open>NULL\<close>), a float to \<^verbatim>\<open>NUMERIC(p, s)\<close>, an
  int to \<^verbatim>\<open>INTEGER\<close> and to \<^verbatim>\<open>BIGINT\<close>, the cast \<^verbatim>\<open>::uuid\<close> and
  \<^verbatim>\<open>to_timestamp\<close>.
\<close>

record ('f, 'n, 'u, 't) pg_engine =
  pg_raises :: "pg_call \<Rightarrow> string option"
  pg_commit_applied :: bool
  pg_varchar :: "nat \<Rightarrow> py_value \<Rightarrow> string + string option"
  pg_numeric :: "nat \<Rightarrow> nat \<Rightarrow> 'f \<Rightarrow> string + 'n"
  pg_integer :: "int \<Rightarrow> string + int"
  pg_bigint :: "int \<Rightarrow> string + int"
  pg_not_null :: "string"
  pg_uuid :: "string \<Rightarrow> string + 'u"
  pg_to_timestamp :: "int \<Rightarrow> string + 't"

text \<open>
  One tuple converted to the column types of \<^verbatim>\<open>temp_lecturas\<close>. A \<^verbatim>\<open>NULL\<close> key
  violates the primary key's not-null constraint (message \<open>pg_not_null\<close>).
\<close>

definition temp_row ::
  "('f, 'n, 'u, 't, 'x) pg_engine_scheme \<Rightarrow> 'f dato \<Rightarrow> string + 'n temp_lectura" where
  "temp_row eng d =
     (case pg_varchar eng 255 (id_lectura d) of Inl m \<Rightarrow> Inl m | Inr None \<Rightarrow> Inl (pg_not_null eng)
      | Inr (Some k) \<Rightarrow>
      case pg_varchar eng 50 (device_id d) of Inl m \<Rightarrow> Inl m | Inr dev \<Rightarrow>
      case pg_numeric eng 5 2 (temperatura d) of Inl m \<Rightarrow> Inl m | Inr t \<Rightarrow>
      case pg_numeric eng 5 2 (humedad d) of Inl m \<Rightarrow> Inl m | Inr h \<Rightarrow>
      case pg_numeric eng 10 3 (distancia_cm d) of Inl m \<Rightarrow> Inl m | Inr dc \<Rightarrow>
      case pg_integer eng (luz_porcentaje d) of Inl m \<Rightarrow> Inl m | Inr l \<Rightarrow>
      case pg_varchar eng 20 (estado_luz d) of Inl m \<Rightarrow> Inl m | Inr est \<Rightarrow>
      case pg_bigint eng (timestamp d) of Inl m \<Rightarrow> Inl m | Inr ts \<Rightarrow>
        Inr \<lparr>tmp_id_lectura = k, tmp_device_id = dev, tmp_temperatura = t, tmp_humedad = h,
             tmp_distancia_cm = dc, tmp_luz_porcentaje = l, tmp_estado_luz = est,
             tmp_timestamp_lectura_unix = ts\<rparr>)"

text \<open>
  Step 3b, \<^verbatim>\<open>execute_values\<close> with \<^verbatim>\<open>ON CONFLICT (id_lectura) DO NOTHING\<close>: the tuples
  go into the temporary table in order; a tuple whose key is already there is skipped, a
  tuple that cannot be converted fails the statement. (psycopg2 sends the tuples in
  pages of 100, one statement each; the first failing tuple raises in either reading.)
\<close>

fun insert_temp ::
  "('f, 'n, 'u, 't, 'x) pg_engine_scheme \<Rightarrow> 'f dato list \<Rightarrow> 'n temp_lectura list
     \<Rightarrow> string + 'n temp_lectura list" where
  "insert_temp eng [] temp = Inr temp"
| "insert_temp eng (d # ds) temp =
     (case temp_row eng d of
        Inl m \<Rightarrow> Inl m
      | Inr r \<Rightarrow>
          insert_temp eng ds
            (if tmp_id_lectura r \<in> set (map tmp_id_lectura temp) then temp else temp @ [r]))"

text \<open>The \<^verbatim>\<open>SELECT\<close> list of step 3c on one row of the temporary table.\<close>

definition final_row ::
  "('f, 'n, 'u, 't, 'x) pg_engine_scheme \<Rightarrow> 'n temp_lectura \<Rightarrow> string + ('u, 'n, 't) lectura" where
  "final_row eng r =
     (case pg_uuid eng (tmp_id_lectura r) of Inl m \<Rightarrow> Inl m | Inr u \<Rightarrow>
      case pg_to_timestamp eng (tmp_timestamp_lectura_unix r) of Inl m \<Rightarrow> Inl m | Inr ts \<Rightarrow>
        Inr \<lparr>ls_id_lectura = u, ls_device_id = tmp_device_id r,
             ls_temperatura = tmp_temperatura r, ls_humedad = tmp_humedad r,
             ls_distancia_cm = tmp_distancia_cm r, ls_luz_porcentaje = tmp_luz_porcentaje r,
             ls_estado_luz = tmp_estado_luz r, ls_timestamp_lectura = ts\<rparr>)"

fun select_temp ::
  "('f, 'n, 'u, 't, 'x) pg_engine_scheme \<Rightarrow> 'n temp_lectura list
     \<Rightarrow> string + ('u, 'n, 't) lectura list" where
  "select_temp eng [] = Inr []"
| "select_temp eng (r # rs) =
     (case final_row eng r of
        Inl m \<Rightarrow> Inl m
      | Inr l \<Rightarrow> (case select_temp eng rs of Inl m \<Rightarrow> Inl m | Inr ls \<Rightarrow> Inr (l # ls)))"

text \<open>
  \<^verbatim>\<open>INSERT INTO lecturas_sensores ... ON CONFLICT (id_lectura) DO NOTHING\<close>: a selected
  row whose key is already in the table (from an earlier run, or from an earlier row of
  this statement) is skipped. The counter is \<^verbatim>\<open>cursor.rowcount\<close>, the rows inserted.
\<close>

fun insert_on_conflict ::
  "('u, 'n, 't) lectura list \<Rightarrow> ('u, 'n, 't) lectura list \<Rightarrow> nat
     \<Rightarrow> nat \<times> ('u, 'n, 't) lectura list" where
  "insert_on_conflict [] tabla n = (n, tabla)"
| "insert_on_conflict (l # ls) tabla n =
     (if ls_id_lectura l \<in> set (map ls_id_lectura tabla) then insert_on_conflict ls tabla n
      else insert_on_conflict ls (tabla @ [l]) (Suc n))"

text \<open>
  Step 3c: the statement fails when a row of the \<^verbatim>\<open>SELECT\<close> cannot be converted. The
  rows of the temporary table are read in the order of their insertion; SQL leaves the
  order open, and it decides only which of two rows with one key is the one kept.
\<close>

definition insert_final ::
  "('f, 'n, 'u, 't, 'x) pg_engine_scheme \<Rightarrow> 'n temp_lectura list \<Rightarrow> ('u, 'n, 't) lectura list
     \<Rightarrow> string + nat \<times> ('u, 'n, 't) lectura list" where
  "insert_final eng temp tabla =
     (case select_temp eng temp of
        Inl m \<Rightarrow> Inl m
      | Inr ls \<Rightarrow> Inr (insert_on_conflict ls tabla 0))"

text \<open>
  The body of the second \<^verbatim>\<open>try\<close> after the connection is open (lines 90 to 140), on
  the committed contents \<open>tabla\<close> of \<^verbatim>\<open>lecturas_sensores\<close>. The result is the list of
  calls made, then either the message of the exception that left the body or
  \<^verbatim>\<open>cursor.rowcount\<close>, then the committed contents of the table when the body is left.
  The rows written by the move live in the transaction only until the server commits:
  they are in the result when \<^verbatim>\<open>conn.commit()\<close> returns, and when it raises after the
  server has committed.
\<close>

definition transaccion ::
  "('f, 'n, 'u, 't, 'x) pg_engine_scheme \<Rightarrow> 'f dato list \<Rightarrow> ('u, 'n, 't) lectura list
     \<Rightarrow> pg_call list \<times> (string + nat) \<times> ('u, 'n, 't) lectura list" where
  "transaccion eng datos tabla =
     (case pg_raises eng OpenCursor of Some m \<Rightarrow> ([OpenCursor], Inl m, tabla) | None \<Rightarrow>
      case pg_raises eng CreateTempTable of
        Some m \<Rightarrow> ([OpenCursor, CreateTempTable], Inl m, tabla) | None \<Rightarrow>
      case (case pg_raises eng ExecuteValues of
              Some m \<Rightarrow> Inl m | None \<Rightarrow> insert_temp eng datos []) of
        Inl m \<Rightarrow> ([OpenCursor, CreateTempTable, ExecuteValues], Inl m, tabla) | Inr temp \<Rightarrow>
      case (case pg_raises eng InsertFinal of
              Some m \<Rightarrow> Inl m | None \<Rightarrow> insert_final eng temp tabla) of
        Inl m \<Rightarrow> ([OpenCursor, CreateTempTable, ExecuteValues, InsertFinal], Inl m, tabla)
      | Inr (n, tabla') \<Rightarrow>
      case pg_raises eng Commit of
        Some m \<Rightarrow>
          ([OpenCursor, CreateTempTable, ExecuteValues, InsertFinal, Commit], Inl m,
           if pg_commit_applied eng then tabla' else tabla)
      | None \<Rightarrow>
          ([OpenCursor, CreateTempTable, ExecuteValues, InsertFinal, Commit, CloseCursor],
           Inr n, tabla'))"

section \<open>The whole run\<close>

text \<open>The dict that \<^verbatim>\<open>run_dynamo_sync\<close> returns: \<^verbatim>\<open>status\<close> and two optional keys.\<close>

record sync_result =
  status :: string
  new_records :: "nat option"
  error :: "string option"

text \<open>
  The world outside the process: the scan requests DynamoDB has received, the calls
  psycopg2 has received, and the committed rows of \<^verbatim>\<open>lecturas_sensores\<close>.
\<close>

record ('k, 'u, 'n, 't) world =
  scan_requests :: "'k option list"
  pg_calls :: "pg_call list"
  lecturas_sensores :: "('u, 'n, 't) lectura list"

text \<open>The behaviour of the two stores and of the runtime, the parameters of a run.\<close>

record ('k, 'f, 'n, 'u, 't) env =
  dynamo_table_scan :: "'k option \<Rightarrow> string + (item, 'k) scan_response"
  py :: "'f py_runtime"
  pg :: "('f, 'n, 'u, 't) pg_engine"

text \<open>
  Lines 87 to 151. When \<^verbatim>\<open>get_db_connection()\<close> raises, \<^verbatim>\<open>conn\<close> is still
  \<^verbatim>\<open>None\<close>: the handler neither rolls back nor closes. When a later call raises, the
  handler calls \<^verbatim>\<open>conn.rollback()\<close>; if that call raises too, its exception leaves the
  handler and the function, after the \<^verbatim>\<open>finally\<close> clause has closed the connection.
  A rollback undoes nothing that the server has committed.
\<close>

definition insertar_postgres ::
  "('k, 'f, 'n, 'u, 't, 'x) env_scheme \<Rightarrow> 'f dato list \<Rightarrow> ('k, 'u, 'n, 't) world
     \<Rightarrow> (py_exception + sync_result) \<times> ('k, 'u, 'n, 't) world" where
  "insertar_postgres ev datos w =
     (case pg_raises (pg ev) Connect of
        Some m \<Rightarrow>
          (Inr \<lparr>status = ''error_postgres'', new_records = None, error = Some m\<rparr>,
           w\<lparr>pg_calls := pg_calls w @ [Connect]\<rparr>)
      | None \<Rightarrow>
          (case transaccion (pg ev) datos (lecturas_sensores w) of
             (calls, Inr n, tabla) \<Rightarrow>
               (Inr \<lparr>status = ''success'', new_records = Some n, error = None\<rparr>,
                w\<lparr>pg_calls := pg_calls w @ Connect # calls @ [CloseConnection],
                  lecturas_sensores := tabla\<rparr>)
           | (calls, Inl m, tabla) \<Rightarrow>
               (case pg_raises (pg ev) Rollback of
                  None \<Rightarrow>
                    (Inr \<lparr>status = ''error_postgres'', new_records = None, error = Some m\<rparr>,
                     w\<lparr>pg_calls := pg_calls w @ Connect # calls @ [Rollback, CloseConnection],
                       lecturas_sensores := tabla\<rparr>)
                | Some m' \<Rightarrow>
                    (Inl (LibraryError m'),
                     w\<lparr>pg_calls := pg_calls w @ Connect # calls @ [Rollback, CloseConnection],
                       lecturas_sensores := tabla\<rparr>))))"

text \<open>
  \<^verbatim>\<open>run_dynamo_sync\<close>. \<open>None\<close>: the scan loop never ends. \<open>Inl e\<close>: the exception \<open>e\<close>
  leaves the function. \<open>Inr r\<close>: the function returns the dict \<open>r\<close>.
\<close>

definition run_dynamo_sync ::
  "('k, 'f::zero, 'n, 'u, 't, 'x) env_scheme \<Rightarrow> ('k, 'u, 'n, 't) world
     \<Rightarrow> ((py_exception + sync_result) \<times> ('k, 'u, 'n, 't) world) option" where
  "run_dynamo_sync ev w =
     (case scan_loop (dynamo_table_scan ev) None [] (scan_requests w) of
        None \<Rightarrow> None
      | Some (Inl m, reqs) \<Rightarrow>
          Some (Inr \<lparr>status = ''error_dynamo'', new_records = None, error = Some m\<rparr>,
                w\<lparr>scan_requests := reqs\<rparr>)
      | Some (Inr items, reqs) \<Rightarrow>
          (if items = [] then
             Some (Inr \<lparr>status = ''no_items'', new_records = None, error = None\<rparr>,
                   w\<lparr>scan_requests := reqs\<rparr>)
           else
             (case datos_para_insertar (py ev) items of
                Inl e \<Rightarrow> Some (Inl e, w\<lparr>scan_requests := reqs\<rparr>)
              | Inr datos \<Rightarrow> Some (insertar_postgres ev datos (w\<lparr>scan_requests := reqs\<rparr>)))))"

section \<open>The route \<^verbatim>\<open>/sync-dynamo\<close>\<close>

text \<open>The body that \<^verbatim>\<open>jsonify\<close> serialises.\<close>

record sync_body =
  message :: string
  result :: sync_result

text \<open>
  The view function \<^verbatim>\<open>manual_sync\<close>: it has no handler of its own, so an exception of
  \<^verbatim>\<open>run_dynamo_sync\<close> leaves it too. The accented letter of the message is the code
  point 243.
\<close>

definition manual_sync ::
  "('k, 'f::zero, 'n, 'u, 't, 'x) env_scheme \<Rightarrow> ('k, 'u, 'n, 't) world
     \<Rightarrow> ((py_exception + sync_body) \<times> ('k, 'u, 'n, 't) world) option" where
  "manual_sync ev w =
     (case run_dynamo_sync ev w of
        None \<Rightarrow> None
      | Some (Inl e, w') \<Rightarrow> Some (Inl e, w')
      | Some (Inr r, w') \<Rightarrow>
          Some (Inr \<lparr>message = ''Sincronizaci'' @ [char_of (243::nat)] @ ''n manual completada.'',
                     result = r\<rparr>, w'))"

text \<open>
  The response Flask sends for \<^verbatim>\<open>GET /sync-dynamo\<close>: what \<^verbatim>\<open>jsonify\<close> built, with
  status 200 as the view gives no other, or the 500 of an exception that left the view.
\<close>

record http_response =
  status_code :: nat
  json :: "sync_body option"

definition get_sync_dynamo ::
  "('k, 'f::zero, 'n, 'u, 't, 'x) env_scheme \<Rightarrow> ('k, 'u, 'n, 't) world
     \<Rightarrow> (http_response \<times> ('k, 'u, 'n, 't) world) option" where
  "get_sync_dynamo ev w =
     (case manual_sync ev w of
        None \<Rightarrow> None
      | Some (Inl e, w') \<Rightarrow> Some (\<lparr>status_code = 500, json = None\<rparr>, w')
      | Some (Inr b, w') \<Rightarrow> Some (\<lparr>status_code = 200, json = Some b\<rparr>, w'))"

section \<open>Sources with finitely many pages\<close>

text \<open>
  \<open>page_chain scan kw pages\<close>: the request with \<open>kw\<close> is answered by the first page, every
  page but the last carries a continuation marker that, sent as the next request's
  \<^verbatim>\<open>ExclusiveStartKey\<close>, is answered by the next page, and the last page carries none.
\<close>

fun page_chain ::
  "('k option \<Rightarrow> string + ('i, 'k) scan_response) \<Rightarrow> 'k option \<Rightarrow> ('i, 'k) scan_response list
     \<Rightarrow> bool" where
  "page_chain scan kw [] = False"
| "page_chain scan kw (r # rs) =
     (scan kw = Inr r \<and>
      (case LastEvaluatedKey r of None \<Rightarrow> rs = [] | Some k \<Rightarrow> page_chain scan (Some k) rs))"

text \<open>
  \<open>chain_fails scan kw pages m\<close>: the pages are answered in the same way, each with a
  marker, and the request that follows the last of them raises with message \<open>m\<close>.
\<close>

fun chain_fails ::
  "('k option \<Rightarrow> string + ('i, 'k) scan_response) \<Rightarrow> 'k option \<Rightarrow> ('i, 'k) scan_response list
     \<Rightarrow> string \<Rightarrow> bool" where
  "chain_fails scan kw [] m = (scan kw = Inl m)"
| "chain_fails scan kw (r # rs) m =
     (scan kw = Inr r \<and>
      (case LastEvaluatedKey r of None \<Rightarrow> False | Some k \<Rightarrow> chain_fails scan (Some k) rs m))"

text \<open>The items of a chain, and the requests that fetch it.\<close>

definition chain_items :: "('i, 'k) scan_response list \<Rightarrow> 'i list" where
  "chain_items pages = concat (map response_items pages)"

definition chain_requests :: "('i, 'k) scan_response list \<Rightarrow> 'k option list" where
  "chain_requests pages = None # map LastEvaluatedKey (butlast pages)"

section \<open>Example stores\<close>

text \<open>
  A runtime whose floats are the rationals, exact on decimals, and whose parsers accept
  no string (the examples hold no numeric string).
\<close>

definition exact_py :: "rat py_runtime" where
  "exact_py =
     \<lparr>float_of_decimal =
        (\<lambda>d. if 0 \<le> exponent d then of_int (coefficient d * 10 ^ nat (exponent d))
             else of_int (coefficient d) / of_int (10 ^ nat (- exponent d))),
      float_of_str = (\<lambda>s. None),
      int_of_str = (\<lambda>s. None)\<rparr>"

text \<open>
  A database that is up: no call raises, strings fit their columns by length, numbers by
  range, a key is a unique identifier when it has 36 characters.
\<close>

definition plain_pg :: "(rat, rat, string, int) pg_engine" where
  "plain_pg =
     \<lparr>pg_raises = (\<lambda>c. None),
      pg_commit_applied = False,
      pg_varchar =
        (\<lambda>n v. case v of
                 PyNone \<Rightarrow> Inr None
               | PyStr s \<Rightarrow> if length s \<le> n then Inr (Some s) else Inl ''value too long''
               | _ \<Rightarrow> Inl ''cannot adapt''),
      pg_numeric =
        (\<lambda>p s f. if \<bar>f\<bar> < 10 ^ (p - s) then Inr f else Inl ''numeric field overflow''),
      pg_integer =
        (\<lambda>i. if - (2 ^ 31) \<le> i \<and> i < 2 ^ 31 then Inr i else Inl ''integer out of range''),
      pg_bigint =
        (\<lambda>i. if - (2 ^ 63) \<le> i \<and> i < 2 ^ 63 then Inr i else Inl ''bigint out of range''),
      pg_not_null = ''null value in column id_lectura'',
      pg_uuid =
        (\<lambda>s. if length s = 36 then Inr s else Inl ''invalid input syntax for type uuid''),
      pg_to_timestamp = (\<lambda>i. Inr i)\<rparr>"

text \<open>The same database losing its connection at the move of step 3c.\<close>

definition lost_pg :: "(rat, rat, string, int) pg_engine" where
  "lost_pg =
     plain_pg\<lparr>pg_raises :=
       (\<lambda>c. if c = InsertFinal then Some ''server closed the connection unexpectedly''
            else if c = Rollback then Some ''connection already closed''
            else None)\<rparr>"

text \<open>A complete item, an item with the required fields only, an item with no timestamp.\<close>

definition item_a1 :: item where
  "item_a1 =
     [''id_lectura'' \<mapsto> PyStr ''00000000-0000-0000-0000-0000000000a1'',
      ''device_id'' \<mapsto> PyStr ''d1'',
      ''temperatura'' \<mapsto> PyDecimal (Decimal 225 (- 1)),
      ''humedad'' \<mapsto> PyDecimal (Decimal 55 0),
      ''distancia_cm'' \<mapsto> PyDecimal (Decimal 10 0),
      ''luz_porcentaje'' \<mapsto> PyDecimal (Decimal 80 0),
      ''estado_luz'' \<mapsto> PyStr ''on'',
      ''timestamp'' \<mapsto> PyDecimal (Decimal 1700000000 0)]"

definition item_a2 :: item where
  "item_a2 =
     [''id_lectura'' \<mapsto> PyStr ''00000000-0000-0000-0000-0000000000a2'',
      ''device_id'' \<mapsto> PyStr ''d1'',
      ''timestamp'' \<mapsto> PyDecimal (Decimal 1700000060 0)]"

definition item_sin_timestamp :: item where
  "item_sin_timestamp =
     [''id_lectura'' \<mapsto> PyStr ''00000000-0000-0000-0000-0000000000a3'',
      ''device_id'' \<mapsto> PyStr ''d1'']"

text \<open>
  An item with neither humidity nor light percentage, and an item whose temperature is
  there and holds \<^verbatim>\<open>NULL\<close>; both have a timestamp.
\<close>

definition item_sin_humedad :: item where
  "item_sin_humedad =
     [''id_lectura'' \<mapsto> PyStr ''00000000-0000-0000-0000-0000000000a4'',
      ''device_id'' \<mapsto> PyStr ''d1'',
      ''temperatura'' \<mapsto> PyDecimal (Decimal 225 (- 1)),
      ''distancia_cm'' \<mapsto> PyDecimal (Decimal 10 0),
      ''estado_luz'' \<mapsto> PyStr ''on'',
      ''timestamp'' \<mapsto> PyDecimal (Decimal 1700000120 0)]"

definition item_temperatura_null :: item where
  "item_temperatura_null =
     [''id_lectura'' \<mapsto> PyStr ''00000000-0000-0000-0000-0000000000a5'',
      ''device_id'' \<mapsto> PyStr ''d1'',
      ''temperatura'' \<mapsto> PyNone,
      ''timestamp'' \<mapsto> PyDecimal (Decimal 1700000180 0)]"

text \<open>A table that answers every request with one page holding the given items.\<close>

definition one_page :: "item list \<Rightarrow> nat option \<Rightarrow> string + (item, nat) scan_response" where
  "one_page its kw = Inr \<lparr>Items = Some its, LastEvaluatedKey = None\<rparr>"

definition env_of ::
  "(nat option \<Rightarrow> string + (item, nat) scan_response) \<Rightarrow> (rat, rat, string, int) pg_engine
     \<Rightarrow> (nat, rat, rat, string, int) env" where
  "env_of scan eng = \<lparr>dynamo_table_scan = scan, py = exact_py, pg = eng\<rparr>"

text \<open>
  A table of 250 items in four pages, the first and three continuation pages, that
  rejects any other marker.
\<close>

definition paged_scan :: "nat option \<Rightarrow> string + (nat, nat) scan_response" where
  "paged_scan kw =
     (case kw of
        None \<Rightarrow> Inr \<lparr>Items = Some (replicate 70 1), LastEvaluatedKey = Some 1\<rparr>
      | Some k \<Rightarrow>
          if k = 1 then Inr \<lparr>Items = Some (replicate 70 2), LastEvaluatedKey = Some 2\<rparr>
          else if k = 2 then Inr \<lparr>Items = Some (replicate 70 3), LastEvaluatedKey = Some 3\<rparr>
          else if k = 3 then Inr \<lparr>Items = Some (replicate 40 4), LastEvaluatedKey = None\<rparr>
          else Inl ''ValidationException'')"

definition paged_pages :: "(nat, nat) scan_response list" where
  "paged_pages =
     [\<lparr>Items = Some (replicate 70 1), LastEvaluatedKey = Some 1\<rparr>,
      \<lparr>Items = Some (replicate 70 2), LastEvaluatedKey = Some 2\<rparr>,
      \<lparr>Items = Some (replicate 70 3), LastEvaluatedKey = Some 3\<rparr>,
      \<lparr>Items = Some (replicate 40 4), LastEvaluatedKey = None\<rparr>]"

text \<open>A table of two pages, and one whose second request is throttled.\<close>

definition two_pages :: "nat option \<Rightarrow> string + (item, nat) scan_response" where
  "two_pages kw =
     (case kw of
        None \<Rightarrow> Inr \<lparr>Items = Some [item_a1], LastEvaluatedKey = Some 7\<rparr>
      | Some k \<Rightarrow> Inr \<lparr>Items = Some [item_a2], LastEvaluatedKey = None\<rparr>)"

definition throttled :: "nat option \<Rightarrow> string + (item, nat) scan_response" where
  "throttled kw =
     (case kw of
        None \<Rightarrow> Inr \<lparr>Items = Some [item_a1], LastEvaluatedKey = Some 7\<rparr>
      | Some k \<Rightarrow> Inl ''ProvisionedThroughputExceededException'')"

definition two_pages_chain :: "(item, nat) scan_response list" where
  "two_pages_chain =
     [\<lparr>Items = Some [item_a1], LastEvaluatedKey = Some 7\<rparr>,
      \<lparr>Items = Some [item_a2], LastEvaluatedKey = None\<rparr>]"

text \<open>The tuples that the two first items become.\<close>

definition dato_a1 :: "rat dato" where
  "dato_a1 =
     \<lparr>id_lectura = PyStr ''00000000-0000-0000-0000-0000000000a1'', device_id = PyStr ''d1'',
      temperatura = 45 / 2, humedad = 55, distancia_cm = 10, luz_porcentaje = 80,
      estado_luz = PyStr ''on'', timestamp = 1700000000\<rparr>"

definition dato_a2 :: "rat dato" where
  "dato_a2 =
     \<lparr>id_lectura = PyStr ''00000000-0000-0000-0000-0000000000a2'', device_id = PyStr ''d1'',
      temperatura = 0, humedad = 0, distancia_cm = 0, luz_porcentaje = 0,
      estado_luz = PyNone, timestamp = 1700000060\<rparr>"

text \<open>A tuple whose reading id is the short id \<^verbatim>\<open>a1\<close> of the spec's own scenario.\<close>

definition dato_s1 :: "rat dato" where
  "dato_s1 =
     \<lparr>id_lectura = PyStr ''a1'', device_id = PyStr ''d1'',
      temperatura = 45 / 2, humedad = 55, distancia_cm = 10, luz_porcentaje = 80,
      estado_luz = PyStr ''on'', timestamp = 1700000000\<rparr>"

text \<open>A world in which nothing has happened yet.\<close>

definition w0 :: "(nat, string, rat, int) world" where
  "w0 = \<lparr>scan_requests = [], pg_calls = [], lecturas_sensores = []\<rparr>"

text \<open>The world after a first merge of the two tuples.\<close>

definition w_merged :: "(nat, string, rat, int) world" where
  "w_merged =
     \<lparr>scan_requests = [],
      pg_calls = [Connect, OpenCursor, CreateTempTable, ExecuteValues, InsertFinal, Commit,
                  CloseCursor, CloseConnection],
      lecturas_sensores =
        [\<lparr>ls_id_lectura = ''00000000-0000-0000-0000-0000000000a1'', ls_device_id = Some ''d1'',
          ls_temperatura = 45 / 2, ls_humedad = 55, ls_distancia_cm = 10,
          ls_luz_porcentaje = 80, ls_estado_luz = Some ''on'',
          ls_timestamp_lectura = 1700000000\<rparr>,
         \<lparr>ls_id_lectura = ''00000000-0000-0000-0000-0000000000a2'', ls_device_id = Some ''d1'',
          ls_temperatura = 0, ls_humedad = 0, ls_distancia_cm = 0, ls_luz_porcentaje = 0,
          ls_estado_luz = None, ls_timestamp_lectura = 1700000060\<rparr>]\<rparr>"

text \<open>The world after a merge that the move has failed.\<close>

definition w_rejected :: "(nat, string, rat, int) world" where
  "w_rejected =
     \<lparr>scan_requests = [],
      pg_calls = [Connect, OpenCursor, CreateTempTable, ExecuteValues, InsertFinal, Rollback,
                  CloseConnection],
      lecturas_sensores = []\<rparr>"

section \<open>The scan loop on a finite chain\<close>

lemma scan_loop_chain:
  "page_chain scan kw pages \<Longrightarrow>
   scan_loop scan kw items reqs =
     Some (Inr (items @ concat (map response_items pages)),
           reqs @ kw # map LastEvaluatedKey (butlast pages))"
proof (induction pages arbitrary: kw items reqs)
  case Nil
  then show ?case by simp
next
  case (Cons r rs)
  from Cons.prems have sc: "scan kw = Inr r" by simp
  show ?case
  proof (cases "LastEvaluatedKey r")
    case None
    with Cons.prems have "rs = []" by simp
    with sc None show ?thesis by (subst scan_loop.simps) simp
  next
    case (Some k)
    with Cons.prems have ch: "page_chain scan (Some k) rs" by simp
    then have ne: "rs \<noteq> []" by (cases rs) simp_all
    from Cons.IH [OF ch] sc Some ne show ?thesis
      by (subst scan_loop.simps) simp
  qed
qed

lemma scan_loop_fails:
  "chain_fails scan kw pages m \<Longrightarrow>
   scan_loop scan kw items reqs = Some (Inl m, reqs @ kw # map LastEvaluatedKey pages)"
proof (induction pages arbitrary: kw items reqs)
  case Nil
  then show ?case by (subst scan_loop.simps) simp
next
  case (Cons r rs)
  from Cons.prems have sc: "scan kw = Inr r" by simp
  from Cons.prems obtain k
    where k: "LastEvaluatedKey r = Some k" and ch: "chain_fails scan (Some k) rs m"
    by (cases "LastEvaluatedKey r") simp_all
  from Cons.IH [OF ch] sc k show ?case
    by (subst scan_loop.simps) simp
qed

lemma page_chain_requests: "page_chain scan kw pages \<Longrightarrow> length (chain_requests pages) = length pages"
  by (cases pages) (simp_all add: chain_requests_def)

text \<open>
  C4. For a table whose responses form a finite chain of pages, the scan loop returns
  the items of all the pages, in the order of the pages (so whatever the order, none is
  missing and none is there twice): as many items as the pages hold together.
\<close>

theorem scan_all_complete:
  assumes "page_chain scan None pages"
  shows "\<exists>reqs'. scan_loop scan None [] reqs = Some (Inr (chain_items pages), reqs')
           \<and> length (chain_items pages) = sum_list (map (length \<circ> response_items) pages)"
  using scan_loop_chain [OF assms, of "[]" reqs]
  by (simp add: chain_items_def length_concat comp_def)

theorem scan_all_complete_witness:
  "page_chain paged_scan None paged_pages
   \<and> length paged_pages = 4
   \<and> sum_list (map (length \<circ> response_items) paged_pages) = 250
   \<and> (\<exists>reqs'. scan_loop paged_scan None [] [] = Some (Inr (chain_items paged_pages), reqs')
        \<and> length (chain_items paged_pages) = 250)"
proof -
  have ch: "page_chain paged_scan None paged_pages"
    by (simp add: paged_scan_def paged_pages_def)
  have n: "sum_list (map (length \<circ> response_items) paged_pages) = 250"
    by (simp add: paged_pages_def response_items_def)
  from scan_all_complete [OF ch, of "[]"] n ch show ?thesis
    by (simp add: paged_pages_def)
qed

section \<open>The run on a finite chain\<close>

lemma insertar_scan_requests:
  "scan_requests (snd (insertar_postgres ev datos w)) = scan_requests w"
  by (simp add: insertar_postgres_def split: option.splits prod.splits sum.splits)

lemma run_on_chain:
  assumes "page_chain (dynamo_table_scan ev) None pages"
  shows "run_dynamo_sync ev w =
     (if chain_items pages = [] then
        Some (Inr \<lparr>status = ''no_items'', new_records = None, error = None\<rparr>,
              w\<lparr>scan_requests := scan_requests w @ chain_requests pages\<rparr>)
      else
        (case datos_para_insertar (py ev) (chain_items pages) of
           Inl e \<Rightarrow> Some (Inl e, w\<lparr>scan_requests := scan_requests w @ chain_requests pages\<rparr>)
         | Inr datos \<Rightarrow>
             Some (insertar_postgres ev datos
                     (w\<lparr>scan_requests := scan_requests w @ chain_requests pages\<rparr>))))"
  using scan_loop_chain [OF assms, of "[]" "scan_requests w"]
  unfolding chain_items_def chain_requests_def
  by (simp add: run_dynamo_sync_def)

lemma run_on_failure:
  assumes "chain_fails (dynamo_table_scan ev) None pages m"
  shows "run_dynamo_sync ev w =
     Some (Inr \<lparr>status = ''error_dynamo'', new_records = None, error = Some m\<rparr>,
           w\<lparr>scan_requests := scan_requests w @ None # map LastEvaluatedKey pages\<rparr>)"
  using scan_loop_fails [OF assms, of "[]" "scan_requests w"]
  by (simp add: run_dynamo_sync_def)

lemma fila_timestamp:
  "py_int rt (dict_get it ''timestamp'') = Inl e0 \<Longrightarrow> \<exists>e. fila rt it = Inl e"
  by (simp add: fila_def split: sum.splits)

lemma datos_para_insertar_fails:
  "it \<in> set its \<Longrightarrow> fila rt it = Inl e0 \<Longrightarrow> \<exists>e. datos_para_insertar rt its = Inl e"
  by (induction its) (auto split: sum.splits)

lemma absent_timestamp:
  "it ''timestamp'' = None \<Longrightarrow> py_int rt (dict_get it ''timestamp'') = Inl TypeError"
  by (simp add: dict_get_def py_int_def)

lemmas example_defs = exact_py_def plain_pg_def lost_pg_def item_a1_def
  item_a2_def item_sin_timestamp_def one_page_def env_of_def two_pages_def throttled_def
  two_pages_chain_def w0_def dato_a1_def dato_a2_def w_merged_def
  item_sin_humedad_def item_temperatura_null_def dato_s1_def w_rejected_def

lemmas model_defs = run_dynamo_sync_def insertar_postgres_def transaccion_def insert_final_def
  final_row_def temp_row_def fila_def float_get_def int_get_def dict_get_def py_int_def
  py_float_def int_of_decimal_def response_items_def

text \<open>
  C10. On a table whose responses form a finite chain of pages the loop ends, and so does
  the run: the loop, and the whole of \<^verbatim>\<open>run_dynamo_sync\<close>, return a value. The requests
  the loop adds to the log are the one without a marker and one for each marker of the
  chain: as many requests as the chain has pages.
\<close>

theorem pagination_terminates:
  assumes "page_chain (dynamo_table_scan ev) None pages"
  shows "(\<exists>r. scan_loop (dynamo_table_scan ev) None [] (scan_requests w) =
               Some (r, scan_requests w @ chain_requests pages))
       \<and> (\<exists>r w'. run_dynamo_sync ev w = Some (r, w')
              \<and> scan_requests w' = scan_requests w @ chain_requests pages)
       \<and> length (chain_requests pages) = length pages"
proof -
  have "scan_loop (dynamo_table_scan ev) None [] (scan_requests w) =
          Some (Inr (chain_items pages), scan_requests w @ chain_requests pages)"
    using scan_loop_chain [OF assms, of "[]" "scan_requests w"]
    by (simp add: chain_items_def chain_requests_def)
  moreover have "\<exists>r w'. run_dynamo_sync ev w = Some (r, w')
      \<and> scan_requests w' = scan_requests w @ chain_requests pages"
  proof (cases "chain_items pages = []")
    case True
    then show ?thesis by (simp add: run_on_chain [OF assms])
  next
    case False
    show ?thesis
    proof (cases "datos_para_insertar (py ev) (chain_items pages)")
      case (Inl e)
      with False show ?thesis by (simp add: run_on_chain [OF assms])
    next
      case (Inr datos)
      let ?w1 = "w\<lparr>scan_requests := scan_requests w @ chain_requests pages\<rparr>"
      have "run_dynamo_sync ev w = Some (insertar_postgres ev datos ?w1)"
        using False Inr by (simp add: run_on_chain [OF assms])
      moreover have "scan_requests (snd (insertar_postgres ev datos ?w1)) =
          scan_requests w @ chain_requests pages"
        by (simp add: insertar_scan_requests)
      ultimately show ?thesis by (metis prod.collapse)
    qed
  qed
  ultimately show ?thesis using page_chain_requests [OF assms] by blast
qed

theorem pagination_terminates_witness:
  "page_chain (dynamo_table_scan (env_of two_pages plain_pg)) None two_pages_chain
   \<and> (\<exists>r. scan_loop (dynamo_table_scan (env_of two_pages plain_pg)) None [] (scan_requests w0) =
            Some (r, [None, Some 7]))
   \<and> (\<exists>r w'. run_dynamo_sync (env_of two_pages plain_pg) w0 = Some (r, w')
          \<and> scan_requests w' = [None, Some 7])
   \<and> length two_pages_chain = 2"
proof -
  have ch: "page_chain (dynamo_table_scan (env_of two_pages plain_pg)) None two_pages_chain"
    by (simp add: env_of_def two_pages_def two_pages_chain_def)
  have rq: "scan_requests w0 @ chain_requests two_pages_chain = [None, Some 7]"
    by (simp add: w0_def chain_requests_def two_pages_chain_def)
  have ln: "length two_pages_chain = 2" by (simp add: two_pages_chain_def)
  from pagination_terminates [OF ch, of w0] ch show ?thesis
    unfolding rq ln by simp
qed

text \<open>
  C6. When a scan request raises, after any number of pages that were answered, the run
  returns at once the dict with status \<^verbatim>\<open>error_dynamo\<close> (the status the spec calls
  error_source) and the message of the exception under \<^verbatim>\<open>error\<close>. Nothing is asked of
  PostgreSQL: the log of its calls is as before, no connection is opened, no row is
  staged, and \<^verbatim>\<open>lecturas_sensores\<close> holds the rows it held.
\<close>

theorem scan_failure_aborts:
  assumes "chain_fails (dynamo_table_scan ev) None pages m"
  shows "\<exists>w'. run_dynamo_sync ev w =
            Some (Inr \<lparr>status = ''error_dynamo'', new_records = None, error = Some m\<rparr>, w')
         \<and> pg_calls w' = pg_calls w
         \<and> lecturas_sensores w' = lecturas_sensores w
         \<and> scan_requests w' = scan_requests w @ None # map LastEvaluatedKey pages"
  by (simp add: run_on_failure [OF assms])

theorem scan_failure_aborts_witness:
  "chain_fails (dynamo_table_scan (env_of throttled plain_pg)) None
     [\<lparr>Items = Some [item_a1], LastEvaluatedKey = Some 7\<rparr>]
     ''ProvisionedThroughputExceededException''
   \<and> (\<exists>w'. run_dynamo_sync (env_of throttled plain_pg) w0 =
          Some (Inr \<lparr>status = ''error_dynamo'', new_records = None,
                      error = Some ''ProvisionedThroughputExceededException''\<rparr>, w')
        \<and> pg_calls w' = []
        \<and> lecturas_sensores w' = []
        \<and> scan_requests w' = [None, Some 7])"
proof -
  have ch: "chain_fails (dynamo_table_scan (env_of throttled plain_pg)) None
     [\<lparr>Items = Some [item_a1], LastEvaluatedKey = Some 7\<rparr>]
     ''ProvisionedThroughputExceededException''"
    by (simp add: env_of_def throttled_def)
  from scan_failure_aborts [OF ch, of w0] ch show ?thesis
    by (simp add: w0_def)
qed

lemma run_on_empty_scan:
  assumes "page_chain (dynamo_table_scan ev) None pages" and "chain_items pages = []"
    and "dynamo_table_scan ev' = dynamo_table_scan ev"
  shows "run_dynamo_sync ev' w = run_dynamo_sync ev w"
proof -
  from assms(1,3) have "page_chain (dynamo_table_scan ev') None pages" by simp
  from run_on_chain [OF this] run_on_chain [OF assms(1)] assms(2) show ?thesis by simp
qed

text \<open>
  C7. When the pages of the scan hold no item, the run returns the dict with status
  \<^verbatim>\<open>no_items\<close>; no call is made on PostgreSQL, and \<^verbatim>\<open>lecturas_sensores\<close> keeps its
  rows and their number. The outcome depends on the table's answers alone, not on what
  the builtins or the database would do: neither the preparation nor the merge runs.
\<close>

theorem empty_scan_no_items:
  assumes "page_chain (dynamo_table_scan ev) None pages" and "chain_items pages = []"
  shows "(\<exists>w'. run_dynamo_sync ev w =
            Some (Inr \<lparr>status = ''no_items'', new_records = None, error = None\<rparr>, w')
         \<and> pg_calls w' = pg_calls w
         \<and> lecturas_sensores w' = lecturas_sensores w
         \<and> length (lecturas_sensores w') = length (lecturas_sensores w))
       \<and> (\<forall>ev'. dynamo_table_scan ev' = dynamo_table_scan ev \<longrightarrow>
             run_dynamo_sync ev' w = run_dynamo_sync ev w)"
  apply (intro conjI allI impI)
   apply (simp add: run_on_chain [OF assms(1)] assms(2))
  apply (rule run_on_empty_scan [OF assms])
  apply assumption
  done

theorem empty_scan_no_items_witness:
  "page_chain (dynamo_table_scan (env_of (one_page []) plain_pg)) None
     [\<lparr>Items = Some [], LastEvaluatedKey = None\<rparr>]
   \<and> chain_items [\<lparr>Items = Some ([] :: item list), LastEvaluatedKey = (None :: nat option)\<rparr>] = []
   \<and> (\<exists>w'. run_dynamo_sync (env_of (one_page []) plain_pg) w0 =
          Some (Inr \<lparr>status = ''no_items'', new_records = None, error = None\<rparr>, w')
        \<and> pg_calls w' = []
        \<and> lecturas_sensores w' = []
        \<and> length (lecturas_sensores w') = 0)"
proof -
  have ch: "page_chain (dynamo_table_scan (env_of (one_page []) plain_pg)) None
     [\<lparr>Items = Some [], LastEvaluatedKey = None\<rparr>]"
    by (simp add: env_of_def one_page_def)
  have em: "chain_items [\<lparr>Items = Some ([] :: item list), LastEvaluatedKey = (None :: nat option)\<rparr>] = []"
    by (simp add: chain_items_def response_items_def)
  from empty_scan_no_items [OF ch em, of w0, THEN conjunct1] ch em show ?thesis
    by (simp add: w0_def)
qed

text \<open>
  C9. An exception raised while the tuples are prepared leaves \<^verbatim>\<open>run_dynamo_sync\<close>
  before \<^verbatim>\<open>get_db_connection\<close> is called: the run ends with that exception, no call has
  been made on PostgreSQL and \<^verbatim>\<open>lecturas_sensores\<close> is unchanged.
\<close>

theorem preparation_failure_before_connection:
  assumes "page_chain (dynamo_table_scan ev) None pages"
    and "datos_para_insertar (py ev) (chain_items pages) = Inl e"
  shows "\<exists>w'. run_dynamo_sync ev w = Some (Inl e, w')
         \<and> pg_calls w' = pg_calls w
         \<and> lecturas_sensores w' = lecturas_sensores w"
proof -
  from assms(2) have "chain_items pages \<noteq> []" by auto
  with assms(2) show ?thesis by (simp add: run_on_chain [OF assms(1)])
qed

theorem preparation_failure_before_connection_witness:
  "page_chain (dynamo_table_scan (env_of (one_page [item_a1, item_sin_timestamp]) plain_pg)) None
     [\<lparr>Items = Some [item_a1, item_sin_timestamp], LastEvaluatedKey = None\<rparr>]
   \<and> datos_para_insertar (py (env_of (one_page [item_a1, item_sin_timestamp]) plain_pg))
       (chain_items [\<lparr>Items = Some [item_a1, item_sin_timestamp],
                      LastEvaluatedKey = (None :: nat option)\<rparr>]) = Inl TypeError
   \<and> (\<exists>w'. run_dynamo_sync (env_of (one_page [item_a1, item_sin_timestamp]) plain_pg) w0 =
          Some (Inl TypeError, w')
        \<and> pg_calls w' = []
        \<and> lecturas_sensores w' = [])"
proof -
  let ?ev = "env_of (one_page [item_a1, item_sin_timestamp]) plain_pg"
  let ?pages = "[\<lparr>Items = Some [item_a1, item_sin_timestamp],
                  LastEvaluatedKey = (None :: nat option)\<rparr>]"
  have ch: "page_chain (dynamo_table_scan ?ev) None ?pages"
    by (simp add: env_of_def one_page_def)
  have pr: "datos_para_insertar (py ?ev) (chain_items ?pages) = Inl TypeError"
    by (simp add: chain_items_def example_defs model_defs)
  from preparation_failure_before_connection [OF ch pr, of w0] ch pr show ?thesis
    by (simp add: w0_def)
qed

text \<open>
  C1, as the code has it. When the scan holds an item whose timestamp is absent or is a
  value that \<^verbatim>\<open>int()\<close> rejects, preparing the tuples fails for the whole batch: the run
  ends with the exception of the first item that cannot be converted, it returns no
  status, no item of the batch is staged or persisted (the valid ones included), and
  \<^verbatim>\<open>lecturas_sensores\<close> is unchanged.
\<close>

theorem bad_timestamp_fails_batch:
  assumes "page_chain (dynamo_table_scan ev) None pages"
    and "it \<in> set (chain_items pages)"
    and "it ''timestamp'' = None \<or> isl (py_int (py ev) (dict_get it ''timestamp''))"
  shows "\<exists>e w'. run_dynamo_sync ev w = Some (Inl e, w')
         \<and> datos_para_insertar (py ev) (chain_items pages) = Inl e
         \<and> pg_calls w' = pg_calls w
         \<and> lecturas_sensores w' = lecturas_sensores w"
proof -
  from assms(3) obtain e0 where "py_int (py ev) (dict_get it ''timestamp'') = Inl e0"
    using absent_timestamp [of it "py ev"]
    by (cases "py_int (py ev) (dict_get it ''timestamp'')") auto
  then obtain e1 where "fila (py ev) it = Inl e1" using fila_timestamp by blast
  with assms(2) obtain e where e: "datos_para_insertar (py ev) (chain_items pages) = Inl e"
    using datos_para_insertar_fails by blast
  then have "chain_items pages \<noteq> []" by auto
  with e show ?thesis by (simp add: run_on_chain [OF assms(1)])
qed

theorem bad_timestamp_fails_batch_witness:
  "page_chain (dynamo_table_scan (env_of (one_page [item_a1, item_sin_timestamp]) plain_pg)) None
     [\<lparr>Items = Some [item_a1, item_sin_timestamp], LastEvaluatedKey = None\<rparr>]
   \<and> item_sin_timestamp \<in> set (chain_items [\<lparr>Items = Some [item_a1, item_sin_timestamp],
                      LastEvaluatedKey = (None :: nat option)\<rparr>])
   \<and> item_sin_timestamp ''timestamp'' = None
   \<and> (\<exists>e w'. run_dynamo_sync (env_of (one_page [item_a1, item_sin_timestamp]) plain_pg) w0 =
          Some (Inl e, w')
        \<and> pg_calls w' = []
        \<and> lecturas_sensores w' = [])"
proof -
  let ?ev = "env_of (one_page [item_a1, item_sin_timestamp]) plain_pg"
  let ?pages = "[\<lparr>Items = Some [item_a1, item_sin_timestamp],
                  LastEvaluatedKey = (None :: nat option)\<rparr>]"
  have ch: "page_chain (dynamo_table_scan ?ev) None ?pages"
    by (simp add: env_of_def one_page_def)
  have mem: "item_sin_timestamp \<in> set (chain_items ?pages)"
    by (simp add: chain_items_def response_items_def)
  have ab: "item_sin_timestamp ''timestamp'' = None"
    by (simp add: item_sin_timestamp_def)
  then have hyp: "item_sin_timestamp ''timestamp'' = None
      \<or> isl (py_int (py ?ev) (dict_get item_sin_timestamp ''timestamp''))" by simp
  from bad_timestamp_fails_batch [OF ch mem hyp, of w0] obtain e w'
    where "run_dynamo_sync ?ev w0 = Some (Inl e, w')" and "pg_calls w' = pg_calls w0"
      and "lecturas_sensores w' = lecturas_sensores w0" by blast
  then have "\<exists>e w'. run_dynamo_sync ?ev w0 = Some (Inl e, w') \<and> pg_calls w' = []
      \<and> lecturas_sensores w' = []" by (auto simp: w0_def)
  with ch mem ab show ?thesis by blast
qed

text \<open>
  The claim of C1 as the spec states it fails: a batch of a complete item and an item
  with no timestamp ends with \<^verbatim>\<open>TypeError\<close>, and the complete item, which alone is
  persisted by a run, is not persisted by this one.
\<close>

theorem malformed_record_counterexample:
  "run_dynamo_sync (env_of (one_page [item_a1, item_sin_timestamp]) plain_pg) w0 =
     Some (Inl TypeError, \<lparr>scan_requests = [None], pg_calls = [], lecturas_sensores = []\<rparr>)
   \<and> run_dynamo_sync (env_of (one_page [item_a1]) plain_pg) w0 =
     Some (Inr \<lparr>status = ''success'', new_records = Some 1, error = None\<rparr>,
           \<lparr>scan_requests = [None],
             pg_calls = [Connect, OpenCursor, CreateTempTable, ExecuteValues, InsertFinal,
                         Commit, CloseCursor, CloseConnection],
             lecturas_sensores =
               [\<lparr>ls_id_lectura = ''00000000-0000-0000-0000-0000000000a1'',
                 ls_device_id = Some ''d1'', ls_temperatura = 45 / 2, ls_humedad = 55,
                 ls_distancia_cm = 10, ls_luz_porcentaje = 80, ls_estado_luz = Some ''on'',
                 ls_timestamp_lectura = 1700000000\<rparr>]\<rparr>)"
  by (simp add: example_defs model_defs scan_loop.simps)

section \<open>The manual trigger\<close>

text \<open>
  C5, as the code has it. Whenever \<^verbatim>\<open>run_dynamo_sync\<close> returns a dict, whatever its
  status, \<^verbatim>\<open>GET /sync-dynamo\<close> answers 200 and the body holds that dict under
  \<^verbatim>\<open>result\<close>. Whenever \<^verbatim>\<open>run_dynamo_sync\<close> ends with an exception, the view ends
  with it as well, and the answer is not 200.
\<close>

theorem manual_sync_200:
  "(\<forall>r w'. run_dynamo_sync ev w = Some (Inr r, w') \<longrightarrow>
      get_sync_dynamo ev w =
        Some (\<lparr>status_code = 200,
               json = Some \<lparr>message = ''Sincronizaci'' @ [char_of (243::nat)] @ ''n manual completada.'',
                            result = r\<rparr>\<rparr>, w'))
   \<and> (\<forall>e w'. run_dynamo_sync ev w = Some (Inl e, w') \<longrightarrow>
      manual_sync ev w = Some (Inl e, w')
      \<and> get_sync_dynamo ev w = Some (\<lparr>status_code = 500, json = None\<rparr>, w'))"
  by (simp add: get_sync_dynamo_def manual_sync_def)

theorem manual_sync_200_witness:
  "run_dynamo_sync (env_of throttled plain_pg) w0 =
     Some (Inr \<lparr>status = ''error_dynamo'', new_records = None,
                 error = Some ''ProvisionedThroughputExceededException''\<rparr>,
           \<lparr>scan_requests = [None, Some 7], pg_calls = [], lecturas_sensores = []\<rparr>)
   \<and> get_sync_dynamo (env_of throttled plain_pg) w0 =
     Some (\<lparr>status_code = 200,
            json = Some \<lparr>message = ''Sincronizaci'' @ [char_of (243::nat)] @ ''n manual completada.'',
                         result = \<lparr>status = ''error_dynamo'', new_records = None,
                                    error = Some ''ProvisionedThroughputExceededException''\<rparr>\<rparr>\<rparr>,
           \<lparr>scan_requests = [None, Some 7], pg_calls = [], lecturas_sensores = []\<rparr>)"
proof -
  have run: "run_dynamo_sync (env_of throttled plain_pg) w0 =
     Some (Inr \<lparr>status = ''error_dynamo'', new_records = None,
                 error = Some ''ProvisionedThroughputExceededException''\<rparr>,
           \<lparr>scan_requests = [None, Some 7], pg_calls = [], lecturas_sensores = []\<rparr>)"
    by (simp add: example_defs model_defs scan_loop.simps)
  from manual_sync_200 [of "env_of throttled plain_pg" w0] run show ?thesis
    by simp
qed

text \<open>
  The claim of C5 as the spec states it fails: with an item that has no timestamp in the
  table, the view raises \<^verbatim>\<open>TypeError\<close> and the answer is a 500 with no result.
\<close>

theorem manual_sync_counterexample:
  "manual_sync (env_of (one_page [item_a1, item_sin_timestamp]) plain_pg) w0 =
     Some (Inl TypeError, \<lparr>scan_requests = [None], pg_calls = [], lecturas_sensores = []\<rparr>)
   \<and> get_sync_dynamo (env_of (one_page [item_a1, item_sin_timestamp]) plain_pg) w0 =
     Some (\<lparr>status_code = 500, json = None\<rparr>,
           \<lparr>scan_requests = [None], pg_calls = [], lecturas_sensores = []\<rparr>)"
  by (simp add: get_sync_dynamo_def manual_sync_def example_defs model_defs scan_loop.simps)

section \<open>The tuple of one item\<close>









section \<open>The merge\<close>

























section \<open>A failure of the merge\<close>

lemma transaccion_raises:
  assumes "c \<in> {OpenCursor, CreateTempTable, ExecuteValues, InsertFinal, Commit}"
    and "pg_raises eng c = Some m"
  shows "\<exists>calls m0 t. transaccion eng datos tabla = (calls, Inl m0, t) \<and> Rollback \<notin> set calls"
  using assms
  by (auto simp: transaccion_def split: option.splits sum.splits prod.splits)

text \<open>
  Whichever call of the merge raises after the connection is open (the cursor, the
  temporary table, the staging insert, the move or the commit), the handler calls
  \<^verbatim>\<open>conn.rollback()\<close>, and when that call raises too, its exception is what leaves the
  function: the \<^verbatim>\<open>return\<close> of line 148 is not reached.
\<close>

lemma rollback_exception_escapes:
  assumes "pg_raises (pg ev) Connect = None"
    and "c \<in> {OpenCursor, CreateTempTable, ExecuteValues, InsertFinal, Commit}"
    and "pg_raises (pg ev) c = Some m"
    and "pg_raises (pg ev) Rollback = Some m'"
  shows "fst (insertar_postgres ev datos w) = Inl (LibraryError m')"
proof -
  from transaccion_raises [OF assms(2,3)] obtain calls m0 t
    where "transaccion (pg ev) datos (lecturas_sensores w) = (calls, Inl m0, t)" by blast
  with assms(1,4) show ?thesis by (simp add: insertar_postgres_def)
qed

text \<open>
  C3. The code where the claim fails. One complete item is scanned and the connection to
  PostgreSQL is lost at the move of step 3c: the move raises, and \<^verbatim>\<open>conn.rollback()\<close>,
  called by the handler, raises as well. The run ends with the exception of the rollback
  and returns no dict, where the claim has the error surfaced as a status. The server
  has committed nothing: \<^verbatim>\<open>lecturas_sensores\<close> holds the rows it held, none.
\<close>

theorem merge_failure_rollback_raises:
  "run_dynamo_sync (env_of (one_page [item_a1]) lost_pg) w0 =
     Some (Inl (LibraryError ''connection already closed''),
           \<lparr>scan_requests = [None],
             pg_calls = [Connect, OpenCursor, CreateTempTable, ExecuteValues, InsertFinal,
                         Rollback, CloseConnection],
             lecturas_sensores = []\<rparr>)"
  by (simp add: example_defs model_defs scan_loop.simps)

end
